theory Spec2Isabelle
  imports Main "HOL-Library.AList"
begin

section \<open>Data model\<close>

subsection \<open>Errors\<close>

text \<open>
  Go error values.  \<open>errors_New\<close> stands for the values built by \<^verbatim>\<open>errors.New\<close> and
  \<^verbatim>\<open>errors.Errorf\<close> of github.com/pkg/errors (both carry one message),
  \<open>errors_Wrap\<close> for \<^verbatim>\<open>errors.Wrap(err, msg)\<close>, the two context errors for
  \<^verbatim>\<open>context.Canceled\<close> and \<^verbatim>\<open>context.DeadlineExceeded\<close>, and \<open>Foreign\<close> for
  every other error (network, JSON, the application's own), kept by its message.
\<close>

datatype error =
    errors_New string
  | errors_Wrap error string
  | context_Canceled
  | context_DeadlineExceeded
  | Foreign string

fun Error :: "error \<Rightarrow> string" where
  "Error (errors_New msg) = msg"
| "Error (errors_Wrap err msg) = msg @ '': '' @ Error err"
| "Error context_Canceled = ''context canceled''"
| "Error context_DeadlineExceeded = ''context deadline exceeded''"
| "Error (Foreign msg) = msg"

text \<open>\<^verbatim>\<open>errors.Cause\<close>: the innermost wrapped error.\<close>

fun Cause :: "error \<Rightarrow> error" where
  "Cause (errors_Wrap err msg) = Cause err"
| "Cause err = err"

subsection \<open>Generic JSON values, readers, contexts\<close>

datatype json =
    JNull
  | JBool bool
  | JNumber int
  | JString string
  | JArray "json list"
  | JObject "(string \<times> json) list"

text \<open>
  An \<^verbatim>\<open>io.Reader\<close>: the bytes it still has to deliver, and how the stream ends after
  them (\<open>None\<close> is a clean \<^verbatim>\<open>io.EOF\<close>, \<open>Some e\<close> a read error).
\<close>

record reader =
  rd_data :: string
  rd_err :: "error option"

text \<open>
  \<^verbatim>\<open>io.Copy(buf, rdr)\<close> moves everything the reader delivers into the buffer and leaves
  the reader drained.  Both callers drop the error \<^verbatim>\<open>io.Copy\<close> returns.
\<close>

definition io_Copy :: "reader \<Rightarrow> string \<times> reader" where
  "io_Copy rdr = (rd_data rdr, rdr\<lparr>rd_data := []\<rparr>)"

text \<open>A \<^verbatim>\<open>bytes.Buffer\<close> read as an \<^verbatim>\<open>io.Reader\<close>: its contents, then \<^verbatim>\<open>io.EOF\<close>.\<close>

definition bytes_Buffer :: "string \<Rightarrow> reader" where
  "bytes_Buffer buf = \<lparr>rd_data = buf, rd_err = None\<rparr>"

text \<open>
  A \<^verbatim>\<open>context.Context\<close> as the call observes it: \<open>ctx_Err\<close> is \<^verbatim>\<open>ctx.Err()\<close>, and
  \<^verbatim>\<open>ctx.Done()\<close> is closed exactly when it is not \<open>None\<close>.
\<close>

record Context =
  ctx_Err :: "error option"

subsection \<open>Wire types\<close>

text \<open>\<^verbatim>\<open>api.Response\<close> and \<^verbatim>\<open>api.Result\<close>.\<close>

record Result =
  UUID :: string

record Response =
  Err :: int
  Result :: Result
  Message :: string

text \<open>
  \<^verbatim>\<open>api.Payload\<close> with its \<^verbatim>\<open>api.Data\<close>, \<^verbatim>\<open>api.Server\<close> and \<^verbatim>\<open>api.Notifier\<close>.  The
  declarations are not among the sources; the fields are the ones the two payload
  builders set, a field a builder leaves out has Go's zero value.  The type of
  \<open>Body\<close> (the result of \<^verbatim>\<open>errorBody\<close>) is a parameter.
\<close>

record Server =
  Host :: string
  Root :: string
  Branch :: string

record Notifier =
  Name :: string
  Version :: string

record 'b Data =
  Environment :: string
  Body :: 'b
  Level :: string
  Timestamp :: int
  Platform :: string
  CodeVersion :: string
  Language :: string
  Server :: Server
  Fingerprint :: string
  Title :: string
  Notifier :: Notifier
  Custom :: "(string \<times> json) list option"
  UUID :: string

record 'b Payload =
  AccessToken :: string
  Data :: "'b Data"

text \<open>\<^verbatim>\<open>http.Request\<close> and \<^verbatim>\<open>http.Response\<close>, as far as the client touches them.\<close>

record request =
  Method :: string
  URL :: string
  Header :: "(string \<times> string) list"
  Content :: string

record http_Response =
  StatusCode :: int
  Status :: string
  Body :: reader

text \<open>\<^verbatim>\<open>req.Header.Set(key, value)\<close> replaces the value stored under the key.\<close>

definition Header_Set :: "string \<Rightarrow> string \<Rightarrow> request \<Rightarrow> request" where
  "Header_Set key val req = req\<lparr>Header := AList.update key val (Header req)\<rparr>"

subsection \<open>Severity levels\<close>

type_synonym Level = string

definition DebugLevel :: Level where "DebugLevel = ''debug''"
definition InfoLevel :: Level where "InfoLevel = ''info''"
definition WarnLevel :: Level where "WarnLevel = ''warning''"
definition ErrorLevel :: Level where "ErrorLevel = ''error''"
definition CriticalLevel :: Level where "CriticalLevel = ''critical''"

subsection \<open>Stack frames and the fingerprint\<close>

text \<open>
  Modelled from the spec: the stack types (\<^verbatim>\<open>Stack\<close>, its frames, \<^verbatim>\<open>CreateStack\<close> and
  \<^verbatim>\<open>Stack.Fingerprint\<close>) are not among the sources.  The spec gives a frame a function
  name, a file path and a line number.  The record is extensible, so a frame may carry
  more than these three (a program counter, say).
\<close>

record Frame =
  frame_function :: string
  frame_file :: string
  frame_line :: int

definition frame_identity :: "'a Frame_scheme \<Rightarrow> string \<times> string \<times> int" where
  "frame_identity f = (frame_function f, frame_file f, frame_line f)"

text \<open>
  Modelled from the spec: \<^verbatim>\<open>Stack.Fingerprint\<close> is missing.  The spec calls it a short
  stable hash, a deterministic function of the frame identity (function name, file,
  line) of every frame of the stack, in order.  The hash itself is not specified and is
  the parameter \<open>hash\<close>.
\<close>

definition Stack_Fingerprint ::
  "((string \<times> string \<times> int) list \<Rightarrow> string) \<Rightarrow> 'a Frame_scheme list \<Rightarrow> string" where
  "Stack_Fingerprint hash stack = hash (map frame_identity stack)"

subsection \<open>Per-call options\<close>

text \<open>
  An \<^verbatim>\<open>ErrorOption\<close> is a key with a value.  The option type, its keys and its
  constructors are not among the sources; \<^verbatim>\<open>payload\<close> switches on \<^verbatim>\<open>keyCustom\<close> and
  \<^verbatim>\<open>keyUUID\<close> and skips every other key.  Each key is taken to carry a value of the
  type \<^verbatim>\<open>payload\<close> asserts for it.
\<close>

datatype ErrorOption =
    WithCustom "(string \<times> json) list"
  | WithUUID string
  | WithOther string

subsection \<open>Clients\<close>

text \<open>
  The two client structs.  The \<^verbatim>\<open>*http.Client\<close> and the \<^verbatim>\<open>Logger\<close> are collaborators:
  the first is behind \<open>ctxhttp_Do\<close> below, the calls to the second are recorded in the
  world.
\<close>

record httpClient =
  token :: string
  endpoint :: string
  debug :: bool
  environment :: string
  platform :: string
  codeVersion :: string
  serverHost :: string
  serverRoot :: string
  serverBranch :: string
  stackskip :: int

record Client =
  token :: string
  endpoint :: string
  debug :: bool
  environment :: string
  platform :: string
  codeVersion :: string
  serverHost :: string
  serverRoot :: string

subsection \<open>The world: what a call leaves behind\<close>

text \<open>
  One call of the injected logger: \<^verbatim>\<open>Debug(ctx, args...)\<close> of the consolidated client,
  \<^verbatim>\<open>Debugf(ctx, format, args...)\<close> of the per-level client.
\<close>

datatype log_arg = LStr string | LErr error

datatype log_call =
    Logger_Debug "log_arg list"
  | Logger_Debugf string "log_arg list"

text \<open>
  \<open>logged\<close>: the logger calls so far; \<open>sent\<close>: the requests handed to the network so
  far; \<open>uuid_count\<close>: how many UUIDs have been drawn from the generator.
\<close>

record world =
  logged :: "log_call list"
  sent :: "request list"
  uuid_count :: nat

definition log_call :: "log_call \<Rightarrow> world \<Rightarrow> world" where
  "log_call entry w = w\<lparr>logged := logged w @ [entry]\<rparr>"

definition issue :: "request \<Rightarrow> world \<Rightarrow> world" where
  "issue req w = w\<lparr>sent := sent w @ [req]\<rparr>"

subsection \<open>What the client calls but does not define\<close>

text \<open>
  Package constants and functions that the sources use without declaring them
  (\<^verbatim>\<open>language\<close>, \<^verbatim>\<open>Name\<close>, \<^verbatim>\<open>Version\<close>, \<^verbatim>\<open>UserAgent\<close>, \<^verbatim>\<open>errorBody\<close>, \<^verbatim>\<open>CreateStack\<close>,
  the hash of the fingerprint), and the libraries and the environment: the clock, the
  UUID generator (its \<open>n\<close>-th draw), \<^verbatim>\<open>encoding/json\<close>, \<^verbatim>\<open>http.NewRequest\<close> and the
  outcome of \<^verbatim>\<open>ctxhttp.Do\<close> for a context and a request.

  \<^verbatim>\<open>uuid.New\<close> panics when the random source of the host fails; that failure is
  outside the model.

  \<open>json_Decode_Response\<close> is \<^verbatim>\<open>json.NewDecoder(rdr).Decode(resp)\<close> for
  \<^verbatim>\<open>resp *api.Response\<close>: the error and the response left in \<^verbatim>\<open>*resp\<close>.
  \<open>json_Decode_interface\<close> is \<^verbatim>\<open>Decode(&data)\<close> for a local \<^verbatim>\<open>data interface{}\<close>:
  the decoded value lands in the local variable and is gone when the function
  returns, so only the error is kept.
\<close>

record 'b extern =
  pkg_language :: string
  pkg_Name :: string
  pkg_Version :: string
  pkg_UserAgent :: string
  errorBody :: "error option \<Rightarrow> Frame list \<Rightarrow> 'b"
  CreateStack :: "int \<Rightarrow> Frame list"
  fingerprint_hash :: "(string \<times> string \<times> int) list \<Rightarrow> string"
  time_Now_Unix :: int
  uuid_New_String :: "nat \<Rightarrow> string"
  json_Marshal :: "'b Payload \<Rightarrow> error + string"
  json_MarshalIndent :: "'b Payload \<Rightarrow> string"
  http_NewRequest :: "string \<Rightarrow> string \<Rightarrow> string \<Rightarrow> error + request"
  ctxhttp_Do :: "Context \<Rightarrow> request \<Rightarrow> error + http_Response"
  json_Unmarshal_map :: "string \<Rightarrow> error + (string \<times> json) list"
  json_MarshalIndent_map :: "(string \<times> json) list \<Rightarrow> string"
  json_Unmarshal_Response :: "string \<Rightarrow> error + Response"
  json_MarshalIndent_Response :: "Response \<Rightarrow> string"
  json_Decode_Response :: "reader \<Rightarrow> Response \<Rightarrow> error option \<times> Response"
  json_Decode_interface :: "reader \<Rightarrow> error option"

section \<open>The per-level client (client.go)\<close>

text \<open>\<^verbatim>\<open>httpClient.payload\<close>.\<close>

definition httpClient_payload ::
  "'b extern \<Rightarrow> httpClient \<Rightarrow> Level \<Rightarrow> error option \<Rightarrow> 'b Payload" where
  "httpClient_payload x c level err =
     (let title = (case err of None \<Rightarrow> ''<nil>'' | Some e \<Rightarrow> Error e);
          stack = CreateStack x (stackskip c);
          data = \<lparr>Environment = httpClient.environment c,
                  Data.Body = errorBody x err stack,
                  Level = level,
                  Timestamp = time_Now_Unix x,
                  Platform = httpClient.platform c,
                  CodeVersion = httpClient.codeVersion c,
                  Language = pkg_language x,
                  Server = \<lparr>Host = httpClient.serverHost c,
                            Root = httpClient.serverRoot c,
                            Branch = serverBranch c\<rparr>,
                  Fingerprint = Stack_Fingerprint (fingerprint_hash x) stack,
                  Title = title,
                  Notifier = \<lparr>Name = pkg_Name x, Version = pkg_Version x\<rparr>,
                  Custom = None,
                  Data.UUID = []\<rparr>
      in \<lparr>AccessToken = httpClient.token c, Data = data\<rparr>)"

text \<open>\<^verbatim>\<open>httpClient.newRequest\<close>.\<close>

definition httpClient_newRequest ::
  "'b extern \<Rightarrow> httpClient \<Rightarrow> 'b Payload \<Rightarrow> error + request" where
  "httpClient_newRequest x c payload =
     (if httpClient.token c = [] then Inl (errors_New ''empty token'')
      else case json_Marshal x payload of
          Inl err \<Rightarrow> Inl (errors_Wrap err ''failed to encode payload'')
        | Inr data \<Rightarrow>
            (case http_NewRequest x ''POST'' (httpClient.endpoint c) data of
                Inl err \<Rightarrow> Inl (errors_Wrap err ''failed to create new POST request'')
              | Inr req \<Rightarrow>
                  Inr (Header_Set ''User-Agent'' (pkg_UserAgent x)
                        (Header_Set ''Content-Type'' ''application/json'' req))))"

text \<open>
  \<^verbatim>\<open>httpClient.parseResponse\<close>: the error, the response left in \<^verbatim>\<open>*resp\<close>, the world.
\<close>

definition httpClient_parseResponse ::
  "'b extern \<Rightarrow> httpClient \<Rightarrow> Context \<Rightarrow> reader \<Rightarrow> Response \<Rightarrow> world
     \<Rightarrow> error option \<times> Response \<times> world" where
  "httpClient_parseResponse x c ctx rdr resp w =
     (if httpClient.debug c then
        (let (buf, drained) = io_Copy rdr;
             w1 = log_call (Logger_Debugf ''-----> %s (response)\<newline>''
                    [LStr (httpClient.endpoint c)]) w;
             w2 = (case json_Unmarshal_map x buf of
                      Inl err \<Rightarrow>
                        log_call (Logger_Debugf ''failed to unmarshal payload: %v'' [LErr err]) w1
                    | Inr m \<Rightarrow>
                        log_call (Logger_Debugf ''%s\<newline>''
                          [LStr (json_MarshalIndent_map x m)]) w1);
             w3 = log_call (Logger_Debugf ''<----- %s (response)\<newline>''
                    [LStr (httpClient.endpoint c)]) w2;
             (e, resp') = json_Decode_Response x (bytes_Buffer buf) resp
         in (e, resp', w3))
      else
        (let (e, resp') = json_Decode_Response x rdr resp in (e, resp', w)))"

text \<open>
  \<^verbatim>\<open>httpClient.Do\<close>: the error, the response left in \<^verbatim>\<open>*res\<close>, the world.  The deferred
  drain and close of the body change nothing that is observed here.
\<close>

definition httpClient_Do ::
  "'b extern \<Rightarrow> httpClient \<Rightarrow> Context \<Rightarrow> request \<Rightarrow> Response \<Rightarrow> world
     \<Rightarrow> error option \<times> Response \<times> world" where
  "httpClient_Do x c ctx req res w =
     (let w1 = issue req w in
      case ctxhttp_Do x ctx req of
          Inl err \<Rightarrow>
            (case ctx_Err ctx of
                Some ctx_err \<Rightarrow> (Some ctx_err, res, w1)
              | None \<Rightarrow> (Some (errors_Wrap err ''failed to POST to rollbar''), res, w1))
        | Inr resp \<Rightarrow>
            if StatusCode resp \<noteq> 200
            then (Some (errors_New (''received response: '' @ Status resp)), res, w1)
            else httpClient_parseResponse x c ctx (http_Response.Body resp) res w1)"

section \<open>The consolidated client (the second source file)\<close>

text \<open>
  The loop of \<^verbatim>\<open>Client.payload\<close> over the options: \<open>customs\<close> starts as the nil map,
  the identifier \<open>ident\<close> (\<^verbatim>\<open>id\<close> in the source) as the empty string, and each
  option of a known key overwrites its variable.
\<close>

fun range_options ::
  "ErrorOption list \<Rightarrow> (string \<times> json) list option \<times> string
     \<Rightarrow> (string \<times> json) list option \<times> string" where
  "range_options [] (customs, ident) = (customs, ident)"
| "range_options (WithCustom m # options) (customs, ident) = range_options options (Some m, ident)"
| "range_options (WithUUID s # options) (customs, ident) = range_options options (customs, s)"
| "range_options (WithOther k # options) (customs, ident) = range_options options (customs, ident)"

text \<open>
  \<^verbatim>\<open>Client.payload\<close>: the payload and the world, in which one more UUID has been drawn
  when the options gave none.
\<close>

definition Client_payload ::
  "'b extern \<Rightarrow> Client \<Rightarrow> Level \<Rightarrow> error option \<Rightarrow> ErrorOption list \<Rightarrow> world
     \<Rightarrow> 'b Payload \<times> world" where
  "Client_payload x c level err options w =
     (let title = (case err of None \<Rightarrow> ''<nil>'' | Some e \<Rightarrow> Error e);
          (customs, ident) = range_options options (None, []);
          (ident, w1) = (if ident = [] then (uuid_New_String x (uuid_count w),
                                       w\<lparr>uuid_count := Suc (uuid_count w)\<rparr>)
                      else (ident, w));
          data = \<lparr>Environment = Client.environment c,
                  Data.Body = errorBody x err (CreateStack x 4),
                  Level = level,
                  Timestamp = time_Now_Unix x,
                  Platform = Client.platform c,
                  CodeVersion = [],
                  Language = pkg_language x,
                  Server = \<lparr>Host = Client.serverHost c,
                            Root = Client.serverRoot c,
                            Branch = []\<rparr>,
                  Fingerprint = [],
                  Title = title,
                  Notifier = \<lparr>Name = pkg_Name x, Version = pkg_Version x\<rparr>,
                  Custom = customs,
                  Data.UUID = ident\<rparr>
      in (\<lparr>AccessToken = Client.token c, Data = data\<rparr>, w1))"

text \<open>
  \<^verbatim>\<open>Client.parseResponse\<close>.  The third argument of the source is the decode target, a
  local \<^verbatim>\<open>interface{}\<close>; \<^verbatim>\<open>post\<close> passes the request bytes there, and what is decoded
  into it is not returned.
\<close>

definition Client_parseResponse ::
  "'b extern \<Rightarrow> Client \<Rightarrow> Context \<Rightarrow> reader \<Rightarrow> string \<Rightarrow> world \<Rightarrow> error option \<times> world" where
  "Client_parseResponse x c ctx rdr data w =
     (if Client.debug c then
        (let (buf, drained) = io_Copy rdr;
             w1 = log_call (Logger_Debug [LStr ''-----> %s (response)'',
                    LStr (Client.endpoint c)]) w;
             w2 = (case json_Unmarshal_Response x buf of
                      Inl err \<Rightarrow>
                        log_call (Logger_Debug [LStr ''%s'', LStr buf])
                          (log_call (Logger_Debug
                             [LStr ''failed to unmarshal payload: %s'', LErr err]) w1)
                    | Inr m \<Rightarrow>
                        log_call (Logger_Debug
                          [LStr ''%s'', LStr (json_MarshalIndent_Response x m)]) w1);
             w3 = log_call (Logger_Debug [LStr ''<----- %s (response)'',
                    LStr (Client.endpoint c)]) w2
         in (json_Decode_interface x (bytes_Buffer buf), w3))
      else (json_Decode_interface x rdr, w))"

text \<open>
  \<^verbatim>\<open>Client.post\<close>.  The context handed to \<^verbatim>\<open>ctxhttp.Do\<close> is a child of \<open>pctx\<close> made by
  \<^verbatim>\<open>context.WithCancel\<close>; until the deferred \<^verbatim>\<open>cancel\<close> runs at return it is done exactly
  when \<open>pctx\<close> is, with the same error, so \<open>pctx\<close> stands for it.
\<close>

definition Client_post ::
  "'b extern \<Rightarrow> Client \<Rightarrow> Context \<Rightarrow> Level \<Rightarrow> error option \<Rightarrow> ErrorOption list \<Rightarrow> world
     \<Rightarrow> error option \<times> world" where
  "Client_post x c pctx level err options w =
     (if Client.token c = [] then (Some (errors_New ''empty token''), w)
      else
        (let (payload, w1) = Client_payload x c level err options w in
         case json_Marshal x payload of
             Inl err \<Rightarrow> (Some (errors_Wrap err ''failed to encode payload''), w1)
           | Inr data \<Rightarrow>
               (let w2 = (if Client.debug c
                          then log_call (Logger_Debug [LStr (json_MarshalIndent x payload)]) w1
                          else w1)
                in case http_NewRequest x ''POST'' (Client.endpoint c) data of
                    Inl err \<Rightarrow> (Some (errors_New ''failed to create new POST request''), w2)
                  | Inr req0 \<Rightarrow>
                      (let req = Header_Set ''Content-Type'' ''application/json'' req0;
                           w3 = issue req w2
                       in case ctxhttp_Do x pctx req of
                           Inl err \<Rightarrow>
                             (Some (errors_Wrap err ''failed to POST to rollbar''), w3)
                         | Inr resp \<Rightarrow>
                             if StatusCode resp \<noteq> 200
                             then (Some (errors_New (''received response: '' @ Status resp)), w3)
                             else Client_parseResponse x c pctx
                                    (http_Response.Body resp) data w3))))"

text \<open>
  The five public methods.  None has a result in the source; the model returns the
  world they leave.
\<close>

definition Client_Debug ::
  "'b extern \<Rightarrow> Client \<Rightarrow> Context \<Rightarrow> error option \<Rightarrow> ErrorOption list \<Rightarrow> world \<Rightarrow> world" where
  "Client_Debug x c ctx err options w =
     (case Client_post x c ctx DebugLevel err options w of
         (Some e, w') \<Rightarrow> log_call (Logger_Debug [LStr ''rollbar: Debug: %+v'', LErr e]) w'
       | (None, w') \<Rightarrow> w')"

definition Client_Info ::
  "'b extern \<Rightarrow> Client \<Rightarrow> Context \<Rightarrow> error option \<Rightarrow> ErrorOption list \<Rightarrow> world \<Rightarrow> world" where
  "Client_Info x c ctx err options w =
     (case Client_post x c ctx InfoLevel err options w of
         (Some e, w') \<Rightarrow> log_call (Logger_Debug [LStr ''rollbar: Info: %+v'', LErr e]) w'
       | (None, w') \<Rightarrow> w')"

definition Client_Error ::
  "'b extern \<Rightarrow> Client \<Rightarrow> Context \<Rightarrow> error option \<Rightarrow> ErrorOption list \<Rightarrow> world \<Rightarrow> world" where
  "Client_Error x c ctx err options w =
     (case Client_post x c ctx ErrorLevel err options w of
         (Some e, w') \<Rightarrow> log_call (Logger_Debug [LStr ''rollbar: Error: %+v'', LErr e]) w'
       | (None, w') \<Rightarrow> w')"

definition Client_Warn ::
  "'b extern \<Rightarrow> Client \<Rightarrow> Context \<Rightarrow> error option \<Rightarrow> ErrorOption list \<Rightarrow> world \<Rightarrow> world" where
  "Client_Warn x c ctx err options w =
     (case Client_post x c ctx WarnLevel err options w of
         (Some e, w') \<Rightarrow> log_call (Logger_Debug [LStr ''rollbar: Warn: %+v'', LErr e]) w'
       | (None, w') \<Rightarrow> w')"

definition Client_Critical ::
  "'b extern \<Rightarrow> Client \<Rightarrow> Context \<Rightarrow> error option \<Rightarrow> ErrorOption list \<Rightarrow> world \<Rightarrow> world" where
  "Client_Critical x c ctx err options w =
     (case Client_post x c ctx CriticalLevel err options w of
         (Some e, w') \<Rightarrow> log_call (Logger_Debug [LStr ''rollbar: Critical: %+v'', LErr e]) w'
       | (None, w') \<Rightarrow> w')"

section \<open>Reading the options\<close>

text \<open>
  The occurrence identifier that an option list supplies, read off the list rather than
  accumulated by the loop: the value of the last \<open>WithUUID\<close> option, if there is one
  (the recursion looks to the right first).
\<close>

fun is_WithUUID :: "ErrorOption \<Rightarrow> bool" where
  "is_WithUUID (WithUUID s) = True"
| "is_WithUUID opt = False"

fun supplied_UUID :: "ErrorOption list \<Rightarrow> string option" where
  "supplied_UUID [] = None"
| "supplied_UUID (opt # options) =
     (case supplied_UUID options of
         Some s \<Rightarrow> Some s
       | None \<Rightarrow> (case opt of WithUUID s \<Rightarrow> Some s | _ \<Rightarrow> None))"

text \<open>
  What the caller of a severity-leveled method is left with, in the spec's words: the
  outcome of \<^verbatim>\<open>post\<close> is swallowed, and a failure is handed to the logger under the
  method's label.
\<close>

definition spec_swallow_and_log :: "string \<Rightarrow> error option \<times> world \<Rightarrow> world" where
  "spec_swallow_and_log label r =
     (case fst r of
         None \<Rightarrow> snd r
       | Some e \<Rightarrow> (snd r)\<lparr>logged := logged (snd r) @ [Logger_Debug [LStr label, LErr e]]\<rparr>)"

section \<open>A mock server and a configured client\<close>

text \<open>
  Concrete collaborators on which the theorems below are run: two response bodies, a
  decoder that knows these two bodies, three servers (one answering 200 with a given
  body, one answering 500, one that never answers, so that \<^verbatim>\<open>ctxhttp.Do\<close> ends with the
  context's error once the context is done and with a network error otherwise), and a
  client of each kind.
\<close>

definition body_X :: string where
  \<open>body_X = ''{"err":0,"result":{"uuid":"X"}}''\<close>

definition body_Y :: string where
  \<open>body_Y = ''{"err":1,"result":{"uuid":"Y"},"message":"rate limited"}''\<close>

definition test_parse :: "string \<Rightarrow> Response option" where
  "test_parse body =
     (if body = body_X then Some \<lparr>Err = 0, Result = \<lparr>Result.UUID = ''X''\<rparr>, Message = []\<rparr>
      else if body = body_Y
      then Some \<lparr>Err = 1, Result = \<lparr>Result.UUID = ''Y''\<rparr>, Message = ''rate limited''\<rparr>
      else None)"

definition test_frames :: "Frame list" where
  "test_frames =
     [\<lparr>frame_function = ''main.run'', frame_file = ''/app/main.go'', frame_line = 42\<rparr>,
      \<lparr>frame_function = ''main.main'', frame_file = ''/app/main.go'', frame_line = 12\<rparr>]"

definition test_extern :: "(Context \<Rightarrow> request \<Rightarrow> error + http_Response) \<Rightarrow> string extern" where
  "test_extern server =
     \<lparr>pkg_language = ''go'',
      pkg_Name = ''go-rollbar'',
      pkg_Version = ''0.0.1'',
      pkg_UserAgent = ''go-rollbar/0.0.1'',
      errorBody = (\<lambda>err stack. case err of None \<Rightarrow> ''<nil>'' | Some e \<Rightarrow> Error e),
      CreateStack = (\<lambda>skip. test_frames),
      fingerprint_hash = (\<lambda>ids. concat (map (\<lambda>(fn, file, line). file @ fn) ids)),
      time_Now_Unix = 1500000000,
      uuid_New_String = (\<lambda>n. replicate (Suc n) CHR ''u''),
      json_Marshal = (\<lambda>p. Inr (Title (Data p))),
      json_MarshalIndent = (\<lambda>p. Title (Data p)),
      http_NewRequest = (\<lambda>m u b. if u = [] then Inl (Foreign ''empty url'')
                                   else Inr \<lparr>Method = m, URL = u, Header = [], Content = b\<rparr>),
      ctxhttp_Do = server,
      json_Unmarshal_map = (\<lambda>b. case test_parse b of
                                    None \<Rightarrow> Inl (Foreign ''invalid character'')
                                  | Some r \<Rightarrow> Inr [(''err'', JNumber (Err r))]),
      json_MarshalIndent_map = (\<lambda>m. ''{...}''),
      json_Unmarshal_Response = (\<lambda>b. case test_parse b of
                                    None \<Rightarrow> Inl (Foreign ''invalid character'')
                                  | Some r \<Rightarrow> Inr r),
      json_MarshalIndent_Response = (\<lambda>r. ''{...}''),
      json_Decode_Response = (\<lambda>rdr res. case test_parse (rd_data rdr) of
                                    None \<Rightarrow> (Some (Foreign ''invalid character''), res)
                                  | Some r \<Rightarrow> (None, r)),
      json_Decode_interface = (\<lambda>rdr. case test_parse (rd_data rdr) of
                                    None \<Rightarrow> Some (Foreign ''invalid character'')
                                  | Some r \<Rightarrow> None)\<rparr>"

definition server_200 :: "string \<Rightarrow> Context \<Rightarrow> request \<Rightarrow> error + http_Response" where
  "server_200 body ctx req =
     Inr \<lparr>StatusCode = 200, Status = ''200 OK'', http_Response.Body = bytes_Buffer body\<rparr>"

definition server_500 :: "Context \<Rightarrow> request \<Rightarrow> error + http_Response" where
  "server_500 ctx req =
     Inr \<lparr>StatusCode = 500, Status = ''500 Internal Server Error'',
          http_Response.Body = bytes_Buffer ''internal error''\<rparr>"

definition server_silent :: "Context \<Rightarrow> request \<Rightarrow> error + http_Response" where
  "server_silent ctx req =
     (case ctx_Err ctx of
         Some e \<Rightarrow> Inl e
       | None \<Rightarrow> Inl (Foreign ''connection refused''))"

definition test_Client :: Client where
  "test_Client =
     \<lparr>token = ''secret'', endpoint = ''https://api.rollbar.com/api/1/item/'', debug = False,
      environment = ''development'', platform = ''linux'', codeVersion = [],
      serverHost = ''web1'', serverRoot = []\<rparr>"

definition test_httpClient :: httpClient where
  "test_httpClient =
     \<lparr>httpClient.token = ''secret'',
      httpClient.endpoint = ''https://api.rollbar.com/api/1/item/'',
      httpClient.debug = False, httpClient.environment = ''development'',
      httpClient.platform = ''linux'', httpClient.codeVersion = [],
      httpClient.serverHost = ''web1'', httpClient.serverRoot = [],
      serverBranch = [], stackskip = 3\<rparr>"

definition test_request :: request where
  "test_request =
     \<lparr>Method = ''POST'', URL = ''https://api.rollbar.com/api/1/item/'',
      Header = [(''Content-Type'', ''application/json'')], Content = ''{}''\<rparr>"

definition no_Response :: Response where
  "no_Response = \<lparr>Err = 0, Result = \<lparr>Result.UUID = []\<rparr>, Message = []\<rparr>"

definition world0 :: world where
  "world0 = \<lparr>logged = [], sent = [], uuid_count = 0\<rparr>"

definition background :: Context where
  "background = \<lparr>ctx_Err = None\<rparr>"

definition cancelled :: Context where
  "cancelled = \<lparr>ctx_Err = Some context_Canceled\<rparr>"

text \<open>
  A body whose read breaks off inside the JSON value, and collaborators whose decoder
  ends as \<^verbatim>\<open>json.Decoder\<close> does when the stream ends inside a value: with the read
  error of the stream, or with \<^verbatim>\<open>io.ErrUnexpectedEOF\<close> when the stream ends in
  \<^verbatim>\<open>io.EOF\<close>.
\<close>

definition stream_end_error :: "reader \<Rightarrow> error" where
  "stream_end_error rdr =
     (case rd_err rdr of
         Some e \<Rightarrow> e
       | None \<Rightarrow> Foreign ''unexpected EOF'')"

definition test_extern_stream ::
  "(Context \<Rightarrow> request \<Rightarrow> error + http_Response) \<Rightarrow> string extern" where
  "test_extern_stream server =
     (test_extern server)
       \<lparr>json_Decode_Response := (\<lambda>rdr res. case test_parse (rd_data rdr) of
                                     None \<Rightarrow> (Some (stream_end_error rdr), res)
                                   | Some r \<Rightarrow> (None, r)),
        json_Decode_interface := (\<lambda>rdr. case test_parse (rd_data rdr) of
                                     None \<Rightarrow> Some (stream_end_error rdr)
                                   | Some r \<Rightarrow> None)\<rparr>"

definition broken_body :: reader where
  \<open>broken_body = \<lparr>rd_data = ''{"err":'', rd_err = Some (Foreign ''connection reset by peer'')\<rparr>\<close>

section \<open>The option loop against the reading of the list\<close>

lemma range_options_ident:
  "snd (range_options options (customs, ident)) =
     (case supplied_UUID options of None \<Rightarrow> ident | Some s \<Rightarrow> s)"
proof (induction options arbitrary: customs ident)
  case Nil
  show ?case by simp
next
  case (Cons opt options)
  then show ?case by (cases opt) (simp_all split: option.splits)
qed

lemma range_options_customs:
  "fst (range_options options (customs, ident)) = fst (range_options options (customs, ident'))"
proof (induction options arbitrary: customs ident ident')
  case Nil
  show ?case by simp
next
  case (Cons opt options)
  then show ?case by (cases opt) simp_all
qed

lemma range_options_without_UUID:
  "range_options (filter (\<lambda>opt. \<not> is_WithUUID opt) options) (customs, ident) =
     (fst (range_options options (customs, ident)), ident)"
proof (induction options arbitrary: customs ident)
  case Nil
  show ?case by simp
next
  case (Cons opt options)
  show ?case
  proof (cases opt)
    case (WithUUID s)
    then show ?thesis
      using Cons [of customs ident] range_options_customs [of options customs s ident]
      by simp
  qed (simp_all add: Cons)
qed

lemma Client_payload_UUID:
  "Data.UUID (Data (fst (Client_payload x c level err options w))) =
     (case supplied_UUID options of
         None \<Rightarrow> uuid_New_String x (uuid_count w)
       | Some s \<Rightarrow> if s = [] then uuid_New_String x (uuid_count w) else s)"
proof -
  obtain customs ident where r: "range_options options (None, []) = (customs, ident)"
    by (cases "range_options options (None, [])")
  have "ident = (case supplied_UUID options of None \<Rightarrow> [] | Some s \<Rightarrow> s)"
    using range_options_ident [of options None "[]"] r by simp
  then show ?thesis
    by (simp add: Client_payload_def r split: option.splits)
qed

lemma Client_payload_world:
  "snd (Client_payload x c level err options w) =
     (if supplied_UUID options = None \<or> supplied_UUID options = Some []
      then w\<lparr>uuid_count := Suc (uuid_count w)\<rparr> else w)"
proof -
  obtain customs ident where r: "range_options options (None, []) = (customs, ident)"
    by (cases "range_options options (None, [])")
  have "ident = (case supplied_UUID options of None \<Rightarrow> [] | Some s \<Rightarrow> s)"
    using range_options_ident [of options None "[]"] r by simp
  then show ?thesis
    by (auto simp add: Client_payload_def r split: option.splits)
qed

lemma Client_payload_without_UUID:
  assumes "supplied_UUID options = Some []"
  shows "Client_payload x c level err (filter (\<lambda>opt. \<not> is_WithUUID opt) options) w =
         Client_payload x c level err options w"
proof -
  obtain customs ident where r: "range_options options (None, []) = (customs, ident)"
    by (cases "range_options options (None, [])")
  have "ident = []"
    using range_options_ident [of options None "[]"] r assms by simp
  moreover have "range_options (filter (\<lambda>opt. \<not> is_WithUUID opt) options) (None, []) =
                   (customs, [])"
    using range_options_without_UUID [of options None "[]"] r by simp
  ultimately show ?thesis
    by (simp add: Client_payload_def r)
qed

section \<open>The access token is checked first\<close>

text \<open>
  C1.  With an empty access token \<^verbatim>\<open>Client.post\<close> returns the error \<open>empty token\<close>
  and leaves the world as it found it: no request is handed to the network, nothing is
  logged, no UUID is drawn.  This holds whatever the collaborators would have done, so
  the check precedes serialization and the construction of the request.
  \<^verbatim>\<open>httpClient.newRequest\<close> returns the same error and no request, so that there is
  nothing to send.
\<close>

theorem empty_token_fails_before_any_io:
  assumes "Client.token c = []" and "httpClient.token hc = []"
  shows "Client_post x c pctx level err options w = (Some (errors_New ''empty token''), w)
       \<and> httpClient_newRequest x hc payload = Inl (errors_New ''empty token'')"
  using assms by (simp add: Client_post_def httpClient_newRequest_def)

theorem empty_token_fails_before_any_io_witness:
  "Client.token (test_Client\<lparr>token := []\<rparr>) = []
   \<and> httpClient.token (test_httpClient\<lparr>httpClient.token := []\<rparr>) = []
   \<and> Client_post (test_extern (server_200 body_X)) (test_Client\<lparr>token := []\<rparr>) background
        ErrorLevel None [] world0 = (Some (errors_New ''empty token''), world0)
   \<and> sent (snd (Client_post (test_extern (server_200 body_X)) (test_Client\<lparr>token := []\<rparr>)
        background ErrorLevel None [] world0)) = []
   \<and> httpClient_newRequest (test_extern (server_200 body_X))
        (test_httpClient\<lparr>httpClient.token := []\<rparr>)
        (httpClient_payload (test_extern (server_200 body_X))
           (test_httpClient\<lparr>httpClient.token := []\<rparr>) ErrorLevel None)
      = Inl (errors_New ''empty token'')"
  using empty_token_fails_before_any_io
          [of "test_Client\<lparr>token := []\<rparr>" "test_httpClient\<lparr>httpClient.token := []\<rparr>"
              "test_extern (server_200 body_X)" background ErrorLevel None "[]" world0
              "httpClient_payload (test_extern (server_200 body_X))
                 (test_httpClient\<lparr>httpClient.token := []\<rparr>) ErrorLevel None"]
  by (simp add: test_Client_def test_httpClient_def world0_def)


section \<open>The public methods swallow the outcome\<close>

text \<open>
  C3.  Each of \<^verbatim>\<open>Debug\<close>, \<^verbatim>\<open>Info\<close>, \<^verbatim>\<open>Error\<close>, \<^verbatim>\<open>Warn\<close> and \<^verbatim>\<open>Critical\<close> has no result:
  whatever \<^verbatim>\<open>post\<close> returns for its level, the caller is left with the world \<^verbatim>\<open>post\<close>
  left, to which a failure adds one call of the logger carrying the error, and a
  success adds nothing.
\<close>

theorem severity_methods_return_no_error:
  "Client_Debug x c ctx err options w =
     spec_swallow_and_log ''rollbar: Debug: %+v'' (Client_post x c ctx DebugLevel err options w)
   \<and> Client_Info x c ctx err options w =
     spec_swallow_and_log ''rollbar: Info: %+v'' (Client_post x c ctx InfoLevel err options w)
   \<and> Client_Error x c ctx err options w =
     spec_swallow_and_log ''rollbar: Error: %+v'' (Client_post x c ctx ErrorLevel err options w)
   \<and> Client_Warn x c ctx err options w =
     spec_swallow_and_log ''rollbar: Warn: %+v'' (Client_post x c ctx WarnLevel err options w)
   \<and> Client_Critical x c ctx err options w =
     spec_swallow_and_log ''rollbar: Critical: %+v''
       (Client_post x c ctx CriticalLevel err options w)"
  by (simp add: Client_Debug_def Client_Info_def Client_Error_def Client_Warn_def
        Client_Critical_def spec_swallow_and_log_def log_call_def
      split: prod.splits option.splits)

section \<open>The title of a payload\<close>

text \<open>
  C6.  Both payload builders set the title to the sentinel \<open><nil>\<close> for a nil error
  and to the error's \<^verbatim>\<open>Error()\<close> string otherwise.
\<close>

theorem payload_Title:
  "Title (Data (fst (Client_payload x c level None options w))) = ''<nil>''
   \<and> Title (Data (fst (Client_payload x c level (Some e) options w))) = Error e
   \<and> Title (Data (httpClient_payload x hc level None)) = ''<nil>''
   \<and> Title (Data (httpClient_payload x hc level (Some e))) = Error e"
  by (simp add: Client_payload_def httpClient_payload_def Let_def split: prod.splits)

section \<open>A context that ends before the server answers\<close>

text \<open>
  With a context that is not done, a failure of \<^verbatim>\<open>ctxhttp.Do\<close> comes back from
  \<^verbatim>\<open>httpClient.Do\<close> wrapped as a failure to post.
\<close>

lemma httpClient_Do_wraps_a_network_failure:
  assumes "ctx_Err ctx = None" and "ctxhttp_Do x ctx req = Inl e"
  shows "fst (httpClient_Do x hc ctx req res w) =
           Some (errors_Wrap e ''failed to POST to rollbar'')"
  using assms by (simp add: httpClient_Do_def Let_def)

text \<open>
  C2, as stated, fails for \<^verbatim>\<open>Client.post\<close>.  The server never answers and the caller's
  context is cancelled, so \<^verbatim>\<open>ctxhttp.Do\<close> ends with \<^verbatim>\<open>context.Canceled\<close>; \<^verbatim>\<open>Client.post\<close>
  returns that error inside the wrapper it puts around every transport failure, not the
  context's own error.
\<close>

theorem Client_post_wraps_the_context_error:
  "ctx_Err cancelled = Some context_Canceled
   \<and> fst (Client_post (test_extern server_silent) test_Client cancelled ErrorLevel
          (Some (Foreign ''boom'')) [] world0)
     = Some (errors_Wrap context_Canceled ''failed to POST to rollbar'')
   \<and> fst (Client_post (test_extern server_silent) test_Client cancelled ErrorLevel
          (Some (Foreign ''boom'')) [] world0)
     \<noteq> ctx_Err cancelled"
  by (simp add: Client_post_def Client_payload_def test_extern_def
        server_silent_def test_Client_def cancelled_def Let_def)

text \<open>
  C2, amended.  When the context is done and \<^verbatim>\<open>ctxhttp.Do\<close> fails, \<^verbatim>\<open>httpClient.Do\<close>
  returns the context's own error, unwrapped.  When \<^verbatim>\<open>ctxhttp.Do\<close> ends with the error
  of the done context, \<^verbatim>\<open>Client.post\<close> returns it wrapped as a failure to post, and the
  cause of what it returns is the cause of the context's error.
\<close>

theorem cancellation_is_the_cause_of_the_failure:
  assumes "ctx_Err ctx = Some ctx_err"
    and "ctxhttp_Do x ctx req = Inl e"
    and "Client.token c \<noteq> []"
    and "Client_payload x c level err options w = (payload, w1)"
    and "json_Marshal x payload = Inr data"
    and "http_NewRequest x ''POST'' (Client.endpoint c) data = Inr req0"
    and "ctx_Err pctx = Some ctx_err'"
    and "ctxhttp_Do x pctx (Header_Set ''Content-Type'' ''application/json'' req0) = Inl ctx_err'"
  shows "fst (httpClient_Do x hc ctx req res w) = Some ctx_err
       \<and> fst (Client_post x c pctx level err options w) =
           Some (errors_Wrap ctx_err' ''failed to POST to rollbar'')
       \<and> map_option Cause (fst (Client_post x c pctx level err options w)) =
           Some (Cause ctx_err')"
  using assms by (simp add: httpClient_Do_def Client_post_def Let_def)

text \<open>
  The amended C2 on the server that never answers, with a cancelled context.
\<close>

theorem cancellation_is_the_cause_of_the_failure_witness:
  "fst (httpClient_Do (test_extern server_silent) test_httpClient cancelled test_request
          no_Response world0) = Some context_Canceled
   \<and> map_option Cause (fst (Client_post (test_extern server_silent) test_Client cancelled
          ErrorLevel (Some (Foreign ''boom'')) [] world0)) = Some context_Canceled"
proof -
  let ?x = "test_extern server_silent :: string extern"
  let ?p = "fst (Client_payload ?x test_Client ErrorLevel (Some (Foreign ''boom'')) [] world0)"
  let ?w1 = "snd (Client_payload ?x test_Client ErrorLevel (Some (Foreign ''boom'')) [] world0)"
  let ?req0 = "\<lparr>Method = ''POST'', URL = Client.endpoint test_Client, Header = [],
                Content = ''boom''\<rparr>"
  have 1: "ctx_Err cancelled = Some context_Canceled" by (simp add: cancelled_def)
  have 2: "ctxhttp_Do ?x cancelled test_request = Inl context_Canceled"
    by (simp add: test_extern_def server_silent_def cancelled_def)
  have 3: "Client.token test_Client \<noteq> []" by (simp add: test_Client_def)
  have 4: "Client_payload ?x test_Client ErrorLevel (Some (Foreign ''boom'')) [] world0 = (?p, ?w1)"
    by simp
  have 5: "json_Marshal ?x ?p = Inr ''boom''"
    by (simp add: test_extern_def Client_payload_def)
  have 6: "http_NewRequest ?x ''POST'' (Client.endpoint test_Client) ''boom'' = Inr ?req0"
    by (simp add: test_extern_def test_Client_def)
  have 7: "ctxhttp_Do ?x cancelled (Header_Set ''Content-Type'' ''application/json'' ?req0)
             = Inl context_Canceled"
    by (simp add: test_extern_def server_silent_def cancelled_def)
  show ?thesis
    using cancellation_is_the_cause_of_the_failure
            [OF 1 2 3 4 5 6 1 7, of test_httpClient no_Response]
    by simp
qed

section \<open>Any status other than 200 is a failure\<close>

text \<open>
  C4.  Once \<^verbatim>\<open>ctxhttp.Do\<close> has returned a response, a status code other than 200
  makes \<^verbatim>\<open>httpClient.Do\<close> and \<^verbatim>\<open>Client.post\<close> fail with the error
  \<open>received response: \<close> followed by the status text; the body is not read, the
  caller's response is left as it was and nothing is logged for it.  With status code
  200 the result is that of \<^verbatim>\<open>parseResponse\<close> on the body.
\<close>

theorem non_200_status_is_a_failure:
  assumes "ctxhttp_Do x ctx req = Inr resp"
    and "Client.token c \<noteq> []"
    and "Client_payload x c level err options w = (payload, w1)"
    and "json_Marshal x payload = Inr data"
    and "http_NewRequest x ''POST'' (Client.endpoint c) data = Inr req0"
    and "req' = Header_Set ''Content-Type'' ''application/json'' req0"
    and "ctxhttp_Do x pctx req' = Inr resp'"
    and "w3 = issue req' (if Client.debug c
                          then log_call (Logger_Debug [LStr (json_MarshalIndent x payload)]) w1
                          else w1)"
  shows "(StatusCode resp \<noteq> 200 \<longrightarrow>
            httpClient_Do x hc ctx req res w =
              (Some (errors_New (''received response: '' @ Status resp)), res, issue req w))
       \<and> (StatusCode resp = 200 \<longrightarrow>
            httpClient_Do x hc ctx req res w =
              httpClient_parseResponse x hc ctx (http_Response.Body resp) res (issue req w))
       \<and> (StatusCode resp' \<noteq> 200 \<longrightarrow>
            Client_post x c pctx level err options w =
              (Some (errors_New (''received response: '' @ Status resp')), w3))
       \<and> (StatusCode resp' = 200 \<longrightarrow>
            Client_post x c pctx level err options w =
              Client_parseResponse x c pctx (http_Response.Body resp') data w3)"
  using assms by (simp add: httpClient_Do_def Client_post_def Let_def)

text \<open>
  C4 on the server that answers 500.
\<close>

theorem non_200_status_is_a_failure_witness:
  "httpClient_Do (test_extern server_500) test_httpClient background test_request no_Response
      world0
     = (Some (errors_New ''received response: 500 Internal Server Error''), no_Response,
        issue test_request world0)
   \<and> fst (Client_post (test_extern server_500) test_Client background ErrorLevel
        (Some (Foreign ''boom'')) [] world0)
     = Some (errors_New ''received response: 500 Internal Server Error'')"
proof -
  let ?x = "test_extern server_500 :: string extern"
  let ?p = "fst (Client_payload ?x test_Client ErrorLevel (Some (Foreign ''boom'')) [] world0)"
  let ?w1 = "snd (Client_payload ?x test_Client ErrorLevel (Some (Foreign ''boom'')) [] world0)"
  let ?req0 = "\<lparr>Method = ''POST'', URL = Client.endpoint test_Client, Header = [],
                Content = ''boom''\<rparr>"
  let ?resp = "\<lparr>StatusCode = 500, Status = ''500 Internal Server Error'',
                http_Response.Body = bytes_Buffer ''internal error''\<rparr>"
  have 1: "ctxhttp_Do ?x background test_request = Inr ?resp"
    by (simp add: test_extern_def server_500_def)
  have 2: "Client.token test_Client \<noteq> []" by (simp add: test_Client_def)
  have 3: "Client_payload ?x test_Client ErrorLevel (Some (Foreign ''boom'')) [] world0 = (?p, ?w1)"
    by simp
  have 4: "json_Marshal ?x ?p = Inr ''boom''"
    by (simp add: test_extern_def Client_payload_def)
  have 5: "http_NewRequest ?x ''POST'' (Client.endpoint test_Client) ''boom'' = Inr ?req0"
    by (simp add: test_extern_def test_Client_def)
  have 6: "ctxhttp_Do ?x background (Header_Set ''Content-Type'' ''application/json'' ?req0)
             = Inr ?resp"
    by (simp add: test_extern_def server_500_def)
  show ?thesis
    using non_200_status_is_a_failure [OF 1 2 3 4 5 refl 6 refl, of test_httpClient no_Response]
    by simp
qed

section \<open>The occurrence identifier of a payload\<close>

text \<open>
  C5, as stated, fails: the options hold a caller-supplied identifier, the empty
  string, and the UUID of the payload is not that identifier but the generator's
  next value.
\<close>

theorem empty_identifier_is_not_used:
  "supplied_UUID [WithUUID []] = Some []
   \<and> UUID (Data (fst (Client_payload (test_extern server_500) test_Client ErrorLevel None
        [WithUUID []] world0))) = ''u''
   \<and> UUID (Data (fst (Client_payload (test_extern server_500) test_Client ErrorLevel None
        [WithUUID []] world0))) \<noteq> []"
  by (simp add: Client_payload_def test_extern_def world0_def Let_def)

text \<open>
  C5, amended.  When the last identifier option has a non-empty value, the UUID of the
  payload is that value.  When there is no identifier option, or the last one is empty,
  it is the next value of the generator.  Two consecutive builds without a non-empty
  identifier take two successive values of the generator, the second never the one the
  first took, so their UUIDs differ whenever these two values differ.
\<close>

theorem payload_UUID_from_the_options:
  "(supplied_UUID options = Some s \<and> s \<noteq> [] \<longrightarrow>
      UUID (Data (fst (Client_payload x c level err options w))) = s)
   \<and> (supplied_UUID options = None \<or> supplied_UUID options = Some [] \<longrightarrow>
      UUID (Data (fst (Client_payload x c level err options w))) =
        uuid_New_String x (uuid_count w))
   \<and> ((supplied_UUID options_a = None \<or> supplied_UUID options_a = Some [])
      \<and> (supplied_UUID options_b = None \<or> supplied_UUID options_b = Some [])
      \<and> Client_payload x c level_a err_a options_a w = (payload_a, w_a)
      \<and> Client_payload x c level_b err_b options_b w_a = (payload_b, w_b)
      \<longrightarrow> UUID (Data payload_a) = uuid_New_String x (uuid_count w)
        \<and> UUID (Data payload_b) = uuid_New_String x (Suc (uuid_count w))
        \<and> (uuid_New_String x (uuid_count w) \<noteq> uuid_New_String x (Suc (uuid_count w))
             \<longrightarrow> UUID (Data payload_a) \<noteq> UUID (Data payload_b)))"
proof (intro conjI impI)
  assume "supplied_UUID options = Some s \<and> s \<noteq> []"
  then show "UUID (Data (fst (Client_payload x c level err options w))) = s"
    by (simp add: Client_payload_UUID)
next
  assume "supplied_UUID options = None \<or> supplied_UUID options = Some []"
  then show "UUID (Data (fst (Client_payload x c level err options w))) =
               uuid_New_String x (uuid_count w)"
    by (auto simp: Client_payload_UUID)
next
  assume a: "(supplied_UUID options_a = None \<or> supplied_UUID options_a = Some [])
      \<and> (supplied_UUID options_b = None \<or> supplied_UUID options_b = Some [])
      \<and> Client_payload x c level_a err_a options_a w = (payload_a, w_a)
      \<and> Client_payload x c level_b err_b options_b w_a = (payload_b, w_b)"
  have pa: "UUID (Data payload_a) = uuid_New_String x (uuid_count w)"
    using a Client_payload_UUID [of x c level_a err_a options_a w] by auto
  have "w_a = w\<lparr>uuid_count := Suc (uuid_count w)\<rparr>"
    using a Client_payload_world [of x c level_a err_a options_a w] by auto
  then have pb: "UUID (Data payload_b) = uuid_New_String x (Suc (uuid_count w))"
    using a Client_payload_UUID [of x c level_b err_b options_b w_a] by auto
  show "UUID (Data payload_a) = uuid_New_String x (uuid_count w)" by (rule pa)
  show "UUID (Data payload_b) = uuid_New_String x (Suc (uuid_count w))" by (rule pb)
  assume "uuid_New_String x (uuid_count w) \<noteq> uuid_New_String x (Suc (uuid_count w))"
  with pa pb show "UUID (Data payload_a) \<noteq> UUID (Data payload_b)" by simp
qed

text \<open>
  The amended C5 on a generator whose \<open>n\<close>-th value is a run of \<open>n + 1\<close> letters.
\<close>

theorem payload_UUID_from_the_options_witness:
  "UUID (Data (fst (Client_payload (test_extern server_500) test_Client ErrorLevel None
      [WithCustom [], WithUUID ''abc''] world0))) = ''abc''
   \<and> UUID (Data (fst (Client_payload (test_extern server_500) test_Client ErrorLevel None []
      world0))) = ''u''
   \<and> UUID (Data (fst (Client_payload (test_extern server_500) test_Client InfoLevel None []
      (snd (Client_payload (test_extern server_500) test_Client ErrorLevel None [] world0)))))
     = ''uu''"
proof -
  let ?x = "test_extern server_500 :: string extern"
  let ?a = "Client_payload ?x test_Client ErrorLevel None [] world0"
  let ?b = "Client_payload ?x test_Client InfoLevel None [] (snd ?a)"
  have g: "uuid_New_String ?x (uuid_count world0) = ''u''"
          "uuid_New_String ?x (Suc (uuid_count world0)) = ''uu''"
    by (simp_all add: test_extern_def world0_def)
  have s: "supplied_UUID [WithCustom [], WithUUID ''abc''] = Some ''abc'' \<and> ''abc'' \<noteq> []"
    by simp
  have n: "supplied_UUID [] = None" by simp
  have "(supplied_UUID [] = None \<or> supplied_UUID [] = Some [])
      \<and> (supplied_UUID [] = None \<or> supplied_UUID [] = Some [])
      \<and> Client_payload ?x test_Client ErrorLevel None [] world0 = (fst ?a, snd ?a)
      \<and> Client_payload ?x test_Client InfoLevel None [] (snd ?a) = (fst ?b, snd ?b)"
    by simp
  then show ?thesis
    using payload_UUID_from_the_options
            [where x = ?x and c = test_Client and level = ErrorLevel and err = None
               and options = "[WithCustom [], WithUUID ''abc'']" and s = "''abc''"
               and w = world0 and options_a = "[]" and options_b = "[]"
               and level_a = ErrorLevel and err_a = None and level_b = InfoLevel
               and err_b = None and payload_a = "fst ?a" and w_a = "snd ?a"
               and payload_b = "fst ?b" and w_b = "snd ?b"]
          g s
    by simp
qed

text \<open>
  C10, as stated, fails.  An identifier option with the empty string as its value,
  followed by one with a value, has no part in the payload: the UUID is the later value
  and nothing is drawn from the generator.  An empty one that follows an option with a
  value does not count as absent either: it takes the place of the earlier value, and
  the UUID is drawn from the generator, where the list without the empty option gives
  the earlier value.
\<close>

theorem empty_identifier_is_not_always_as_absent:
  "UUID (Data (fst (Client_payload (test_extern server_500) test_Client ErrorLevel None
      [WithUUID [], WithUUID ''abc''] world0))) = ''abc''
   \<and> snd (Client_payload (test_extern server_500) test_Client ErrorLevel None
      [WithUUID [], WithUUID ''abc''] world0) = world0
   \<and> UUID (Data (fst (Client_payload (test_extern server_500) test_Client ErrorLevel None
      [WithUUID ''abc'', WithUUID []] world0))) = ''u''
   \<and> UUID (Data (fst (Client_payload (test_extern server_500) test_Client ErrorLevel None
      [WithUUID ''abc''] world0))) = ''abc''"
  by (simp add: Client_payload_def test_extern_def world0_def Let_def)

text \<open>
  C10, amended.  When the last identifier option of the list has the empty string as
  its value, \<^verbatim>\<open>Client.payload\<close> builds the payload it builds from the same options
  without any identifier option, and its UUID is the generator's next value.
  \<^verbatim>\<open>uuid.New().String()\<close> is never empty; given that, no payload has the empty string
  as its UUID, whatever the options.
\<close>

theorem empty_identifier_is_treated_as_absent:
  assumes "supplied_UUID options = Some []"
    and "\<forall>n. uuid_New_String x n \<noteq> []"
  shows "Client_payload x c level err options w =
           Client_payload x c level err (filter (\<lambda>opt. \<not> is_WithUUID opt) options) w
       \<and> UUID (Data (fst (Client_payload x c level err options w))) =
           uuid_New_String x (uuid_count w)
       \<and> UUID (Data (fst (Client_payload x c level err options w))) \<noteq> []
       \<and> UUID (Data (fst (Client_payload x c level' err' options' w'))) \<noteq> []"
proof -
  have "UUID (Data (fst (Client_payload x c level' err' options' w'))) \<noteq> []"
    using assms(2) by (simp add: Client_payload_UUID split: option.splits)
  moreover have "UUID (Data (fst (Client_payload x c level err options w))) =
           uuid_New_String x (uuid_count w)"
    using assms(1) by (simp add: Client_payload_UUID)
  ultimately show ?thesis
    using assms Client_payload_without_UUID [OF assms(1), of x c level err w] by simp
qed

text \<open>
  The amended C10 on an option list whose last identifier is empty.
\<close>

theorem empty_identifier_is_treated_as_absent_witness:
  "supplied_UUID [WithUUID ''abc'', WithUUID []] = Some []
   \<and> (\<forall>n. uuid_New_String (test_extern server_500 :: string extern) n \<noteq> [])
   \<and> Client_payload (test_extern server_500) test_Client ErrorLevel None
        [WithUUID ''abc'', WithUUID []] world0
     = Client_payload (test_extern server_500) test_Client ErrorLevel None [] world0
   \<and> UUID (Data (fst (Client_payload (test_extern server_500) test_Client ErrorLevel None
        [WithUUID ''abc'', WithUUID []] world0))) = ''u''"
proof -
  let ?x = "test_extern server_500 :: string extern"
  have 1: "supplied_UUID [WithUUID ''abc'', WithUUID []] = Some []" by simp
  have 2: "\<forall>n. uuid_New_String ?x n \<noteq> []" by (simp add: test_extern_def)
  have g: "uuid_New_String ?x (uuid_count world0) = ''u''"
    by (simp add: test_extern_def world0_def)
  show ?thesis
    using empty_identifier_is_treated_as_absent
            [OF 1 2, of test_Client ErrorLevel None world0 ErrorLevel None "[]" world0]
          1 2 g
    by auto
qed

section \<open>Debug tracing and decoding\<close>

text \<open>
  C7, as stated, fails.  The read of the body breaks off inside the JSON value with a
  read error.  With the debug flag unset the decoder meets that error and both
  \<^verbatim>\<open>parseResponse\<close> functions return it; with the flag set \<^verbatim>\<open>io.Copy\<close> meets it, its
  result is dropped, the decoder reads the bytes received so far from the buffer and
  ends with an unexpected end of input.
\<close>

theorem debug_flag_changes_the_error_of_a_broken_read:
  "fst (Client_parseResponse (test_extern_stream server_500) (test_Client\<lparr>Client.debug := False\<rparr>)
          background broken_body ''{}'' world0)
     = Some (Foreign ''connection reset by peer'')
   \<and> fst (Client_parseResponse (test_extern_stream server_500) (test_Client\<lparr>Client.debug := True\<rparr>)
          background broken_body ''{}'' world0)
     = Some (Foreign ''unexpected EOF'')
   \<and> fst (httpClient_parseResponse (test_extern_stream server_500)
          (test_httpClient\<lparr>httpClient.debug := False\<rparr>) background broken_body no_Response world0)
     = Some (Foreign ''connection reset by peer'')
   \<and> fst (httpClient_parseResponse (test_extern_stream server_500)
          (test_httpClient\<lparr>httpClient.debug := True\<rparr>) background broken_body no_Response world0)
     = Some (Foreign ''unexpected EOF'')"
  by (simp add: Client_parseResponse_def httpClient_parseResponse_def test_extern_stream_def
        test_extern_def stream_end_error_def broken_body_def test_parse_def body_X_def
        body_Y_def io_Copy_def bytes_Buffer_def Let_def)

text \<open>
  C7, amended.  For a body that is read to its end without a read error, both
  \<^verbatim>\<open>parseResponse\<close> functions return with the debug flag set what they return with the
  flag unset, namely what the decoder makes of the body: the body is copied once into
  the buffer and the decoder reads the buffer, not the drained reader.  The
  collaborators are arbitrary, so this includes a debug trace whose \<^verbatim>\<open>json.Unmarshal\<close>
  fails.
\<close>

theorem debug_tracing_leaves_decoding_alone:
  assumes "rd_err rdr = None"
  shows "fst (Client_parseResponse x (c\<lparr>Client.debug := True\<rparr>) ctx rdr data w) =
           fst (Client_parseResponse x (c\<lparr>Client.debug := False\<rparr>) ctx rdr data w)
       \<and> fst (Client_parseResponse x (c\<lparr>Client.debug := True\<rparr>) ctx rdr data w) =
           json_Decode_interface x rdr
       \<and> (fst (httpClient_parseResponse x (hc\<lparr>httpClient.debug := True\<rparr>) ctx rdr resp w),
           fst (snd (httpClient_parseResponse x (hc\<lparr>httpClient.debug := True\<rparr>) ctx rdr resp w)))
         = (fst (httpClient_parseResponse x (hc\<lparr>httpClient.debug := False\<rparr>) ctx rdr resp w),
           fst (snd (httpClient_parseResponse x (hc\<lparr>httpClient.debug := False\<rparr>) ctx rdr resp w)))
       \<and> (fst (httpClient_parseResponse x (hc\<lparr>httpClient.debug := True\<rparr>) ctx rdr resp w),
           fst (snd (httpClient_parseResponse x (hc\<lparr>httpClient.debug := True\<rparr>) ctx rdr resp w)))
         = json_Decode_Response x rdr resp"
proof -
  have "bytes_Buffer (rd_data rdr) = rdr"
    using assms by (simp add: bytes_Buffer_def)
  then show ?thesis
    by (simp add: Client_parseResponse_def httpClient_parseResponse_def io_Copy_def Let_def
          split: prod.splits sum.splits)
qed

text \<open>
  The amended C7 on the body of a successful answer.
\<close>

theorem debug_tracing_leaves_decoding_alone_witness:
  "rd_err (bytes_Buffer body_X) = None
   \<and> fst (Client_parseResponse (test_extern (server_200 body_X))
        (test_Client\<lparr>Client.debug := True\<rparr>) background (bytes_Buffer body_X) ''{}'' world0)
     = None
   \<and> (fst (httpClient_parseResponse (test_extern (server_200 body_X))
         (test_httpClient\<lparr>httpClient.debug := True\<rparr>) background (bytes_Buffer body_X)
         no_Response world0),
       fst (snd (httpClient_parseResponse (test_extern (server_200 body_X))
         (test_httpClient\<lparr>httpClient.debug := True\<rparr>) background (bytes_Buffer body_X)
         no_Response world0)))
     = (None, \<lparr>Err = 0, Result = \<lparr>Result.UUID = ''X''\<rparr>, Message = []\<rparr>)"
proof -
  have h: "rd_err (bytes_Buffer body_X) = None" by (simp add: bytes_Buffer_def)
  have d: "json_Decode_interface (test_extern (server_200 body_X)) (bytes_Buffer body_X) = None"
    by (simp add: test_extern_def test_parse_def bytes_Buffer_def)
  have r: "json_Decode_Response (test_extern (server_200 body_X)) (bytes_Buffer body_X)
             no_Response
           = (None, \<lparr>Err = 0, Result = \<lparr>Result.UUID = ''X''\<rparr>, Message = []\<rparr>)"
    by (simp add: test_extern_def test_parse_def bytes_Buffer_def)
  show ?thesis
    using debug_tracing_leaves_decoding_alone
            [OF h, where x = "test_extern (server_200 body_X)" and c = test_Client
               and ctx = background and data = "''{}''" and w = world0
               and hc = test_httpClient and resp = no_Response]
          h d r
    by auto
qed

section \<open>Who sees the decoded response\<close>

text \<open>
  C8, as stated, fails for \<^verbatim>\<open>Client.post\<close>: two servers answer 200 with bodies that
  decode to different responses, and \<^verbatim>\<open>Client.post\<close> returns the same to its caller in
  both cases.
\<close>

theorem Client_post_returns_no_decoded_body:
  "Client_post (test_extern (server_200 body_X)) test_Client background ErrorLevel None []
      world0
   = Client_post (test_extern (server_200 body_Y)) test_Client background ErrorLevel None []
      world0
   \<and> json_Unmarshal_Response (test_extern (server_200 body_X)) body_X
     = Inr \<lparr>Err = 0, Result = \<lparr>Result.UUID = ''X''\<rparr>, Message = []\<rparr>
   \<and> json_Unmarshal_Response (test_extern (server_200 body_Y)) body_Y
     = Inr \<lparr>Err = 1, Result = \<lparr>Result.UUID = ''Y''\<rparr>, Message = ''rate limited''\<rparr>"
  by (simp add: Client_post_def Client_payload_def Client_parseResponse_def test_extern_def
        server_200_def test_Client_def test_parse_def body_X_def body_Y_def bytes_Buffer_def
        Let_def)

text \<open>
  C8, amended.  On status 200 \<^verbatim>\<open>httpClient.Do\<close> returns the decoder's error and
  leaves in the caller's \<^verbatim>\<open>*res\<close> what the decoder produced from the body (read from the
  buffer when the debug flag is set); when decoding succeeds the call succeeds and the
  caller holds the decoded response, whatever its \<open>Err\<close> code.  \<^verbatim>\<open>Client.post\<close>
  returns an error value only: on status 200, the decoder's error.
\<close>

theorem decoded_response_goes_to_the_caller_of_Do:
  assumes "ctxhttp_Do x ctx req = Inr resp"
    and "StatusCode resp = 200"
    and "Client.token c \<noteq> []"
    and "Client_payload x c level err options w = (payload, w1)"
    and "json_Marshal x payload = Inr data"
    and "http_NewRequest x ''POST'' (Client.endpoint c) data = Inr req0"
    and "ctxhttp_Do x pctx (Header_Set ''Content-Type'' ''application/json'' req0) = Inr resp'"
    and "StatusCode resp' = 200"
  shows "(fst (httpClient_Do x hc ctx req res w), fst (snd (httpClient_Do x hc ctx req res w)))
           = json_Decode_Response x
               (if httpClient.debug hc then bytes_Buffer (rd_data (http_Response.Body resp))
                else http_Response.Body resp) res
       \<and> (json_Decode_Response x
             (if httpClient.debug hc then bytes_Buffer (rd_data (http_Response.Body resp))
              else http_Response.Body resp) res = (None, r)
           \<longrightarrow> fst (httpClient_Do x hc ctx req res w) = None
             \<and> fst (snd (httpClient_Do x hc ctx req res w)) = r)
       \<and> fst (Client_post x c pctx level err options w)
           = json_Decode_interface x
               (if Client.debug c then bytes_Buffer (rd_data (http_Response.Body resp'))
                else http_Response.Body resp')"
  using assms
  by (simp add: httpClient_Do_def httpClient_parseResponse_def Client_post_def
        Client_parseResponse_def io_Copy_def Let_def split: prod.splits sum.splits)

text \<open>
  The amended C8 on a server that answers 200 with a non-zero \<open>err\<close> code.
\<close>

theorem decoded_response_goes_to_the_caller_of_Do_witness:
  "httpClient_Do (test_extern (server_200 body_Y)) test_httpClient background test_request
      no_Response world0
   = (None, \<lparr>Err = 1, Result = \<lparr>Result.UUID = ''Y''\<rparr>, Message = ''rate limited''\<rparr>,
      issue test_request world0)
   \<and> fst (Client_post (test_extern (server_200 body_Y)) test_Client background ErrorLevel
        (Some (Foreign ''boom'')) [] world0) = None"
proof -
  let ?x = "test_extern (server_200 body_Y) :: string extern"
  let ?p = "fst (Client_payload ?x test_Client ErrorLevel (Some (Foreign ''boom'')) [] world0)"
  let ?w1 = "snd (Client_payload ?x test_Client ErrorLevel (Some (Foreign ''boom'')) [] world0)"
  let ?req0 = "\<lparr>Method = ''POST'', URL = Client.endpoint test_Client, Header = [],
                Content = ''boom''\<rparr>"
  let ?resp = "\<lparr>StatusCode = 200, Status = ''200 OK'',
                http_Response.Body = bytes_Buffer body_Y\<rparr>"
  let ?r = "\<lparr>Err = 1, Result = \<lparr>Result.UUID = ''Y''\<rparr>, Message = ''rate limited''\<rparr>"
  have 1: "ctxhttp_Do ?x background test_request = Inr ?resp"
    by (simp add: test_extern_def server_200_def)
  have 2: "StatusCode ?resp = 200" by simp
  have 3: "Client.token test_Client \<noteq> []" by (simp add: test_Client_def)
  have 4: "Client_payload ?x test_Client ErrorLevel (Some (Foreign ''boom'')) [] world0 = (?p, ?w1)"
    by simp
  have 5: "json_Marshal ?x ?p = Inr ''boom''"
    by (simp add: test_extern_def Client_payload_def)
  have 6: "http_NewRequest ?x ''POST'' (Client.endpoint test_Client) ''boom'' = Inr ?req0"
    by (simp add: test_extern_def test_Client_def)
  have 7: "ctxhttp_Do ?x background (Header_Set ''Content-Type'' ''application/json'' ?req0)
             = Inr ?resp"
    by (simp add: test_extern_def server_200_def)
  have d: "json_Decode_Response ?x (bytes_Buffer body_Y) no_Response = (None, ?r)"
    by (simp add: test_extern_def test_parse_def bytes_Buffer_def body_X_def body_Y_def)
  have i: "json_Decode_interface ?x (bytes_Buffer body_Y) = None"
    by (simp add: test_extern_def test_parse_def bytes_Buffer_def body_X_def body_Y_def)
  have w: "snd (snd (httpClient_Do ?x test_httpClient background test_request no_Response
             world0)) = issue test_request world0"
    by (simp add: httpClient_Do_def httpClient_parseResponse_def test_extern_def
          server_200_def test_httpClient_def Let_def split: prod.splits)
  have nd: "\<not> httpClient.debug test_httpClient" "\<not> Client.debug test_Client"
    by (simp_all add: test_httpClient_def test_Client_def)
  from decoded_response_goes_to_the_caller_of_Do
         [OF 1 2 3 4 5 6 7 2, where hc = test_httpClient and res = no_Response and r = ?r]
  have "fst (httpClient_Do ?x test_httpClient background test_request no_Response world0) = None"
    and "fst (snd (httpClient_Do ?x test_httpClient background test_request no_Response world0))
           = ?r"
    and "fst (Client_post ?x test_Client background ErrorLevel (Some (Foreign ''boom'')) []
           world0) = None"
    using d i nd by auto
  with w show ?thesis
    by (metis prod.collapse)
qed

section \<open>The fingerprint\<close>

text \<open>
  C9.  Two stacks whose frames agree in function name, file and line, frame by frame,
  have the same fingerprint, whatever else the frames carry.  The fingerprint that
  \<^verbatim>\<open>httpClient.payload\<close> stores is the fingerprint of the captured stack: it does not
  depend on the error, the clock or the UUID generator.
\<close>

theorem fingerprint_is_a_function_of_the_frames:
  "(map frame_identity stack = map frame_identity stack' \<longrightarrow>
      Stack_Fingerprint hash stack = Stack_Fingerprint hash stack')
   \<and> Fingerprint (Data (httpClient_payload x hc level err)) =
       Stack_Fingerprint (fingerprint_hash x) (CreateStack x (stackskip hc))
   \<and> Fingerprint (Data (httpClient_payload
        (x\<lparr>time_Now_Unix := t, uuid_New_String := gen\<rparr>) hc level err')) =
       Fingerprint (Data (httpClient_payload x hc level err))"
  by (simp add: Stack_Fingerprint_def httpClient_payload_def Let_def)

text \<open>
  C9 on two stacks that differ only in what the frames carry besides their identity,
  and on two errors with different texts.
\<close>

theorem fingerprint_is_a_function_of_the_frames_witness:
  "map frame_identity
     [\<lparr>frame_function = ''main.run'', frame_file = ''/app/main.go'', frame_line = 42,
       \<dots> = (4872992 :: nat)\<rparr>]
   = map frame_identity
     [\<lparr>frame_function = ''main.run'', frame_file = ''/app/main.go'', frame_line = 42,
       \<dots> = ''0xc000012345''\<rparr>]
   \<and> Stack_Fingerprint (fingerprint_hash (test_extern server_500))
     [\<lparr>frame_function = ''main.run'', frame_file = ''/app/main.go'', frame_line = 42,
       \<dots> = (4872992 :: nat)\<rparr>]
   = Stack_Fingerprint (fingerprint_hash (test_extern server_500))
     [\<lparr>frame_function = ''main.run'', frame_file = ''/app/main.go'', frame_line = 42,
       \<dots> = ''0xc000012345''\<rparr>]
   \<and> Fingerprint (Data (httpClient_payload (test_extern server_500) test_httpClient ErrorLevel
        (Some (Foreign ''disk full: 3 bytes left''))))
   = Fingerprint (Data (httpClient_payload (test_extern server_500) test_httpClient ErrorLevel
        (Some (Foreign ''disk full: 0 bytes left''))))"
proof -
  let ?s = "[\<lparr>frame_function = ''main.run'', frame_file = ''/app/main.go'', frame_line = 42,
       \<dots> = (4872992 :: nat)\<rparr>]"
  let ?s' = "[\<lparr>frame_function = ''main.run'', frame_file = ''/app/main.go'', frame_line = 42,
       \<dots> = ''0xc000012345''\<rparr>]"
  have same: "map frame_identity ?s = map frame_identity ?s'"
    by (simp add: frame_identity_def)
  have "Stack_Fingerprint (fingerprint_hash (test_extern server_500)) ?s =
        Stack_Fingerprint (fingerprint_hash (test_extern server_500)) ?s'"
    using fingerprint_is_a_function_of_the_frames
            [of ?s ?s' "fingerprint_hash (test_extern server_500)"] same
    by blast
  moreover have "Fingerprint (Data (httpClient_payload (test_extern server_500) test_httpClient
        ErrorLevel (Some (Foreign ''disk full: 3 bytes left''))))
   = Fingerprint (Data (httpClient_payload (test_extern server_500) test_httpClient ErrorLevel
        (Some (Foreign ''disk full: 0 bytes left''))))"
    by (simp add: httpClient_payload_def Let_def)
  ultimately show ?thesis using same by simp
qed

end
